theory Spec2Isabelle
  imports Main
begin

section \<open>The shader picker of the I3D exporter: data model\<close>

text \<open>
  The embedding follows \<^verbatim>\<open>addon/i3dio/ui/shader_picker.py\<close>. An XML element is what the
  source reads of it: its tag, its attribute dictionary (\<^verbatim>\<open>attrib\<close>, an association
  list read with \<open>map_of\<close>), its text (\<^verbatim>\<open>None\<close> when absent) and its child elements in
  document order. Strings are ASCII strings.
\<close>

datatype element = Element
  (tag: string)
  (attrib: "(string \<times> string) list")
  (etext: "string option")
  (children: "element list")

text \<open>Every exception the modelled code can raise is a value.\<close>

datatype error =
  KeyError | NameError | AttributeError | ValueError | TypeError | IndexError | SyntaxError

text \<open>\<^verbatim>\<open>root.find(name)\<close>: the first direct child with that tag, or \<^verbatim>\<open>None\<close>.\<close>

definition efind :: "element \<Rightarrow> string \<Rightarrow> element option" where
  "efind e t = List.find (\<lambda>c. tag c = t) (children e)"

text \<open>\<^verbatim>\<open>attrib.get(key, default)\<close>.\<close>

definition attrib_get :: "element \<Rightarrow> string \<Rightarrow> string \<Rightarrow> string" where
  "attrib_get e k d = (case map_of (attrib e) k of None \<Rightarrow> d | Some v \<Rightarrow> v)"

subsection \<open>\<^verbatim>\<open>str.split()\<close> without arguments\<close>

text \<open>
  Python splits at runs of whitespace and returns no empty word. On ASCII the whitespace
  characters are tab, line feed, vertical tab, form feed, carriage return, the four
  separators \<^verbatim>\<open>0x1c\<close> to \<^verbatim>\<open>0x1f\<close> and the space.
\<close>

definition is_space :: "char \<Rightarrow> bool" where
  "is_space c = (of_char c \<in> {9, 10, 11, 12, 13, 28, 29, 30, 31, 32 :: nat})"

text \<open>The first argument is the word being read, reversed.\<close>

fun split_aux :: "string \<Rightarrow> string \<Rightarrow> string list" where
  "split_aux w [] = (if w = [] then [] else [rev w])"
| "split_aux w (c # cs) =
     (if is_space c then (if w = [] then split_aux [] cs else rev w # split_aux [] cs)
      else split_aux (c # w) cs)"

definition split :: "string \<Rightarrow> string list" where
  "split s = split_aux [] s"

subsection \<open>Parameter entries\<close>

text \<open>
  The dictionaries built by \<^verbatim>\<open>parameter_element_as_dict\<close> have the keys
  \<^verbatim>\<open>name\<close>, \<^verbatim>\<open>type\<close> and \<^verbatim>\<open>default_value\<close>.
\<close>

record parameter_dict =
  param_name :: string
  param_type :: string
  default_value :: "string list"

text \<open>
  The \<^verbatim>\<open>if/elif\<close> chain that assigns \<^verbatim>\<open>type_length\<close>. Its \<^verbatim>\<open>else\<close> branch only
  prints, so for any other type the variable stays unassigned: \<open>None\<close>.
\<close>

definition type_length :: "string \<Rightarrow> nat option" where
  "type_length t =
     (if t = ''float'' then Some 1
      else if t = ''float2'' then Some 2
      else if t = ''float3'' then Some 3
      else if t = ''float4'' then Some 4
      else None)"

text \<open>
  The nested function \<^verbatim>\<open>parse_default\<close>, with the variable \<^verbatim>\<open>type_length\<close> of the
  enclosing scope as its first argument. Both of its paths read \<^verbatim>\<open>type_length\<close>, so an
  unassigned one raises \<^verbatim>\<open>NameError\<close>. The slice \<^verbatim>\<open>[:type_length-1]\<close> is \<open>take\<close>
  (the length is 1 to 4, so the bound is never negative), and a list times a number that is
  not positive is empty, as \<open>replicate\<close> on the truncating difference.
\<close>

definition parse_default :: "nat option \<Rightarrow> string option \<Rightarrow> error + string list" where
  "parse_default len dflt =
     (case len of
        None \<Rightarrow> Inl NameError
      | Some n \<Rightarrow>
          (let default_parsed =
             (case dflt of
                None \<Rightarrow> []
              | Some d \<Rightarrow> (if length (split d) > n then take (n - 1) (split d) else split d))
           in Inr (default_parsed @ replicate (n - length default_parsed) ''0'')))"

text \<open>
  The loop over the children of an entry with \<^verbatim>\<open>arraySize\<close>. Each dictionary reads
  \<^verbatim>\<open>parameter.attrib['name']\<close>, then \<^verbatim>\<open>child.attrib['index']\<close>, then calls
  \<^verbatim>\<open>parse_default(child.text)\<close>, in this order.
\<close>

fun array_elements ::
  "string option \<Rightarrow> string \<Rightarrow> nat option \<Rightarrow> element list \<Rightarrow> error + parameter_dict list" where
  "array_elements nm ty len [] = Inr []"
| "array_elements nm ty len (child # rest) =
     (case nm of
        None \<Rightarrow> Inl KeyError
      | Some n \<Rightarrow>
          (case map_of (attrib child) ''index'' of
             None \<Rightarrow> Inl KeyError
           | Some i \<Rightarrow>
               (case parse_default len (etext child) of
                  Inl e \<Rightarrow> Inl e
                | Inr dv \<Rightarrow>
                    (case array_elements nm ty len rest of
                       Inl e \<Rightarrow> Inl e
                     | Inr ds \<Rightarrow>
                         Inr (\<lparr>param_name = n @ i, param_type = ty, default_value = dv\<rparr> # ds)))))"

definition parameter_element_as_dict :: "element \<Rightarrow> error + parameter_dict list" where
  "parameter_element_as_dict parameter =
     (case map_of (attrib parameter) ''type'' of
        None \<Rightarrow> Inl KeyError
      | Some ty \<Rightarrow>
          (if map_of (attrib parameter) ''arraySize'' \<noteq> None
           then array_elements (map_of (attrib parameter) ''name'') ty (type_length ty)
                  (children parameter)
           else
             (case map_of (attrib parameter) ''name'' of
                None \<Rightarrow> Inl KeyError
              | Some n \<Rightarrow>
                  (case parse_default (type_length ty) (map_of (attrib parameter) ''defaultValue'') of
                     Inl e \<Rightarrow> Inl e
                   | Inr dv \<Rightarrow> Inr [\<lparr>param_name = n, param_type = ty, default_value = dv\<rparr>]))))"

subsection \<open>Texture entries\<close>

record texture_dict =
  tex_name :: string
  default_file :: string

definition texture_element_as_dict :: "element \<Rightarrow> error + texture_dict" where
  "texture_element_as_dict texture =
     (case map_of (attrib texture) ''name'' of
        None \<Rightarrow> Inl KeyError
      | Some n \<Rightarrow>
          Inr \<lparr>tex_name = n, default_file = attrib_get texture ''defaultFilename'' []\<rparr>)"

subsection \<open>Module constants\<close>

definition shader_default :: string where "shader_default = ''None''"
definition shader_custom :: string where "shader_custom = ''Custom''"
definition custom_shader_default :: string where "custom_shader_default = []"
definition shader_no_variation :: string where "shader_no_variation = ''None''"

type_synonym item = "string \<times> string \<times> string"

definition STATIC_ITEMS :: "item list" where
  "STATIC_ITEMS =
     [(shader_default, ''Select a shader'', ''Select a shader''),
      (shader_custom, ''Load Custom Shader'', ''Load a custom shader'')]"

subsection \<open>Grouping the entries of a descriptor\<close>

text \<open>
  The dictionaries \<^verbatim>\<open>grouped_parameters\<close> and \<^verbatim>\<open>grouped_textures\<close> are only read with
  \<^verbatim>\<open>get\<close> and written with \<^verbatim>\<open>setdefault\<close>, so they are maps from group names to lists.
  \<^verbatim>\<open>setdefault(group_name, [])\<close> followed by \<^verbatim>\<open>extend\<close> or \<^verbatim>\<open>append\<close> on the list it
  returns stores the old list of the group (empty when the group is new) with the new
  dictionaries after it.
\<close>

definition group_of :: "(string \<rightharpoonup> 'a list) \<Rightarrow> string \<Rightarrow> 'a list" where
  "group_of grouped g = (case grouped g of None \<Rightarrow> [] | Some xs \<Rightarrow> xs)"

fun group_parameters ::
  "element list \<Rightarrow> (string \<rightharpoonup> parameter_dict list) \<Rightarrow> error + (string \<rightharpoonup> parameter_dict list)" where
  "group_parameters [] grouped = Inr grouped"
| "group_parameters (parameter # rest) grouped =
     (let group_name = attrib_get parameter ''group'' ''mandatory'';
          grp = group_of grouped group_name
      in case parameter_element_as_dict parameter of
           Inl e \<Rightarrow> Inl e
         | Inr ds \<Rightarrow> group_parameters rest (grouped(group_name \<mapsto> grp @ ds)))"

definition grouped_parameters :: "element \<Rightarrow> error + (string \<rightharpoonup> parameter_dict list)" where
  "grouped_parameters root =
     (case efind root ''Parameters'' of
        None \<Rightarrow> Inr Map.empty
      | Some parameters \<Rightarrow> group_parameters (children parameters) Map.empty)"

fun group_textures ::
  "element list \<Rightarrow> (string \<rightharpoonup> texture_dict list) \<Rightarrow> error + (string \<rightharpoonup> texture_dict list)" where
  "group_textures [] grouped = Inr grouped"
| "group_textures (texture # rest) grouped =
     (if map_of (attrib texture) ''defaultColorProfile'' \<noteq> None
      then
        (let group_name = attrib_get texture ''group'' ''mandatory'';
             grp = group_of grouped group_name
         in case texture_element_as_dict texture of
              Inl e \<Rightarrow> Inl e
            | Inr d \<Rightarrow> group_textures rest (grouped(group_name \<mapsto> grp @ [d])))
      else group_textures rest grouped)"

definition grouped_textures :: "element \<Rightarrow> error + (string \<rightharpoonup> texture_dict list)" where
  "grouped_textures root =
     (case efind root ''Textures'' of
        None \<Rightarrow> Inr Map.empty
      | Some textures \<Rightarrow> group_textures (children textures) Map.empty)"

subsection \<open>The groups a variation activates\<close>

text \<open>
  \<^verbatim>\<open>variations.find("./Variation[@name='...']")\<close>: the first child with the tag
  \<^verbatim>\<open>Variation\<close> whose \<^verbatim>\<open>name\<close> attribute is the given one. The name is pasted between
  apostrophes into the path; a name that holds an apostrophe makes the predicate invalid,
  which the path parser rejects with \<^verbatim>\<open>SyntaxError\<close>.
\<close>

definition find_variation :: "element \<Rightarrow> string \<Rightarrow> error + element option" where
  "find_variation variations nm =
     (if CHR 0x27 \<in> set nm then Inl SyntaxError
      else Inr (List.find (\<lambda>c. tag c = ''Variation'' \<and> map_of (attrib c) ''name'' = Some nm)
                  (children variations)))"

text \<open>
  The list \<^verbatim>\<open>parameter_groups\<close>. When \<^verbatim>\<open>root.find('Variations')\<close> or the lookup of the
  variation gives \<^verbatim>\<open>None\<close>, the next attribute access raises \<^verbatim>\<open>AttributeError\<close>.
\<close>

definition parameter_groups :: "element \<Rightarrow> string \<Rightarrow> error + string list" where
  "parameter_groups root var =
     (if var \<noteq> shader_no_variation
      then
        (case efind root ''Variations'' of
           None \<Rightarrow> Inl AttributeError
         | Some variations \<Rightarrow>
             (case find_variation variations var of
                Inl e \<Rightarrow> Inl e
              | Inr None \<Rightarrow> Inl AttributeError
              | Inr (Some v) \<Rightarrow> Inr (''mandatory'' # split (attrib_get v ''groups'' []))))
      else Inr [''mandatory'', ''base''])"

section \<open>The state kept on materials\<close>

text \<open>
  The property groups of the source, as records. The number type of the host's float
  properties is a type parameter \<open>'f\<close>; Python's \<^verbatim>\<open>float(s)\<close> is a parameter
  \<open>pyfloat\<close> of the operations that convert, with \<open>None\<close> for \<^verbatim>\<open>ValueError\<close>.
  Assigning to a property stores the value: the callbacks the host runs on an assignment
  are outside this model.
\<close>

record 'f I3DShaderParameter =
  sp_name :: string
  sp_type :: string
  data_float_1 :: 'f
  data_float_2 :: "'f list"
  data_float_3 :: "'f list"
  data_float_4 :: "'f list"

record I3DShaderTexture =
  st_name :: string
  source :: string
  default_source :: string

record I3DShaderVariation =
  variation_name :: string

record 'f I3DMaterialShader =
  shader :: string
  custom_shader :: string
  variation :: string
  variations :: "I3DShaderVariation list"
  shader_parameters :: "'f I3DShaderParameter list"
  shader_textures :: "I3DShaderTexture list"

text \<open>What the code writes with \<^verbatim>\<open>print\<close> and \<^verbatim>\<open>self.report\<close>.\<close>

datatype shader_path = Custom_shader_path string | Data_shader_path string string

datatype message =
  Print string
| Print_doesnt_exist shader_path
| Report string string

datatype status = FINISHED | CANCELLED

text \<open>
  The part of the host the operators touch: the names in \<^verbatim>\<open>bpy.data.materials\<close>, the
  \<^verbatim>\<open>i3d_attributes\<close> of each material (a store, since two references may name the same
  material), \<^verbatim>\<open>context.object\<close> (\<open>None\<close>, or an object whose \<^verbatim>\<open>active_material\<close> is
  \<open>None\<close> or a material), the add-on preference \<^verbatim>\<open>fs_data_path\<close>, and the messages
  written so far.
\<close>

record 'f world =
  materials :: "string list"
  i3d_attributes :: "string \<Rightarrow> 'f I3DMaterialShader"
  context_object :: "string option option"
  fs_data_path :: string
  printed :: "message list"

definition clear_attributes :: "'f I3DMaterialShader \<Rightarrow> 'f I3DMaterialShader" where
  "clear_attributes attributes =
     (let a1 = (if \<not> shader attributes = shader_custom
                then attributes\<lparr>shader := shader_default\<rparr> else attributes);
          a2 = a1\<lparr>custom_shader := custom_shader_default,
                  variations := [],
                  shader_parameters := [],
                  shader_textures := []\<rparr>
      in if shader a2 \<notin> set [shader_custom, shader_default]
         then a2\<lparr>variation := shader_no_variation\<rparr> else a2)"

text \<open>
  \<^verbatim>\<open>clear_shader(context)\<close> works on \<^verbatim>\<open>context.object.active_material\<close>; when the
  object or its material is \<^verbatim>\<open>None\<close> the attribute access raises.
\<close>

definition clear_shader :: "'f world \<Rightarrow> error + 'f world" where
  "clear_shader w =
     (case context_object w of
        None \<Rightarrow> Inl AttributeError
      | Some None \<Rightarrow> Inl AttributeError
      | Some (Some m) \<Rightarrow>
          Inr (w\<lparr>i3d_attributes := (i3d_attributes w)(m := clear_attributes (i3d_attributes w m))\<rparr>))"

text \<open>
  The file both operators read: \<^verbatim>\<open>xml_i3d.parse\<close> is not part of this file, so the
  parser together with the file system is a parameter \<open>parse\<close> from the path the operator
  builds to the tree (\<open>None\<close> as the operators test it).
\<close>

definition shader_file_path :: "'f world \<Rightarrow> 'f I3DMaterialShader \<Rightarrow> shader_path" where
  "shader_file_path w attributes =
     (if custom_shader attributes \<noteq> custom_shader_default
      then Custom_shader_path (custom_shader attributes)
      else Data_shader_path (fs_data_path w) (shader attributes))"

subsection \<open>\<^verbatim>\<open>I3DLoadCustomShader.execute\<close>\<close>

fun add_variations ::
  "element list \<Rightarrow> I3DShaderVariation list \<Rightarrow> error + I3DShaderVariation list" where
  "add_variations [] vs = Inr vs"
| "add_variations (v # rest) vs =
     (case map_of (attrib v) ''name'' of
        None \<Rightarrow> Inl KeyError
      | Some n \<Rightarrow> add_variations rest (vs @ [\<lparr>variation_name = n\<rparr>]))"

text \<open>The operator once \<^verbatim>\<open>attributes\<close> is bound to the attributes of material \<open>m\<close>.\<close>

definition load_custom_shader_on ::
  "(shader_path \<Rightarrow> element option) \<Rightarrow> string \<Rightarrow> 'f world \<Rightarrow> error + (status \<times> 'f world)" where
  "load_custom_shader_on parse m w =
     (let attributes = i3d_attributes w m;
          file = shader attributes
      in case parse (shader_file_path w attributes) of
           None \<Rightarrow>
             (case clear_shader (w\<lparr>printed := printed w @ [Print (file @ '' is not correct xml'')]\<rparr>) of
                Inl e \<Rightarrow> Inl e
              | Inr w' \<Rightarrow> Inr (FINISHED, w'))
         | Some root \<Rightarrow>
             (if tag root \<noteq> ''CustomShader''
              then
                (case clear_shader
                        (w\<lparr>printed := printed w @
                           [Print (file @ '' is xml, but not a properly formatted shader file! Aborting'')]\<rparr>) of
                   Inl e \<Rightarrow> Inl e
                 | Inr w' \<Rightarrow> Inr (FINISHED, w'))
              else
                (case add_variations
                        (case efind root ''Variations'' of None \<Rightarrow> [] | Some vs \<Rightarrow> children vs)
                        [\<lparr>variation_name = shader_no_variation\<rparr>] of
                   Inl e \<Rightarrow> Inl e
                 | Inr vs \<Rightarrow>
                     Inr (FINISHED,
                          w\<lparr>i3d_attributes := (i3d_attributes w)
                               (m := attributes\<lparr>variations := vs,
                                               variation := shader_no_variation\<rparr>)\<rparr>))))"

definition load_custom_shader_execute ::
  "(shader_path \<Rightarrow> element option) \<Rightarrow> string \<Rightarrow> 'f world \<Rightarrow> error + (status \<times> 'f world)" where
  "load_custom_shader_execute parse material_name w =
     (if material_name \<noteq> []
      then
        (if material_name \<notin> set (materials w)
         then Inr (CANCELLED,
                   w\<lparr>printed := printed w @
                      [Report ''ERROR'' (''Material '' @ [CHR 0x27] @ material_name @ [CHR 0x27]
                                          @ '' not found.'')]\<rparr>)
         else load_custom_shader_on parse material_name w)
      else
        (case context_object w of
           Some (Some m) \<Rightarrow> load_custom_shader_on parse m w
         | _ \<Rightarrow>
             Inr (CANCELLED,
                  w\<lparr>printed := printed w @
                     [Report ''ERROR'' ''No active object with an active material found.'']\<rparr>)))"

subsection \<open>\<^verbatim>\<open>I3DLoadCustomShaderVariation.execute\<close>\<close>

text \<open>
  \<^verbatim>\<open>shader_parameters.add()\<close> gives an item with the defaults of the property group; the
  loop body then sets its name, its type and the data field of that type. The host refuses
  a type outside the enumeration (\<^verbatim>\<open>TypeError\<close>) and a vector of the wrong length
  (\<^verbatim>\<open>ValueError\<close>); \<^verbatim>\<open>data[0]\<close> on an empty tuple raises \<^verbatim>\<open>IndexError\<close>.
\<close>

definition new_parameter :: "'f::zero I3DShaderParameter" where
  "new_parameter =
     \<lparr>sp_name = ''Unnamed Attribute'', sp_type = ''float'', data_float_1 = 0,
      data_float_2 = [0, 0], data_float_3 = [0, 0, 0], data_float_4 = [0, 0, 0, 0]\<rparr>"

definition set_parameter ::
  "(string \<Rightarrow> 'f option) \<Rightarrow> parameter_dict \<Rightarrow> error + ('f::zero) I3DShaderParameter" where
  "set_parameter pyfloat parameter =
     (let param = new_parameter\<lparr>sp_name := param_name parameter\<rparr>
      in if param_type parameter \<notin> set [''float'', ''float2'', ''float3'', ''float4'']
         then Inl TypeError
         else
           (let param = param\<lparr>sp_type := param_type parameter\<rparr>
            in case those (map pyfloat (default_value parameter)) of
                 None \<Rightarrow> Inl ValueError
               | Some data \<Rightarrow>
                   (if sp_type param = ''float''
                    then (case data of
                            [] \<Rightarrow> Inl IndexError
                          | x # _ \<Rightarrow> Inr (param\<lparr>data_float_1 := x\<rparr>))
                    else if sp_type param = ''float2''
                    then (if length data = 2 then Inr (param\<lparr>data_float_2 := data\<rparr>)
                          else Inl ValueError)
                    else if sp_type param = ''float3''
                    then (if length data = 3 then Inr (param\<lparr>data_float_3 := data\<rparr>)
                          else Inl ValueError)
                    else if sp_type param = ''float4''
                    then (if length data = 4 then Inr (param\<lparr>data_float_4 := data\<rparr>)
                          else Inl ValueError)
                    else Inr param)))"

definition set_texture :: "texture_dict \<Rightarrow> I3DShaderTexture" where
  "set_texture texture =
     \<lparr>st_name = tex_name texture, source = default_file texture,
      default_source = default_file texture\<rparr>"

fun add_parameters ::
  "(string \<Rightarrow> 'f option) \<Rightarrow> parameter_dict list \<Rightarrow> ('f::zero) I3DMaterialShader
     \<Rightarrow> error + 'f I3DMaterialShader" where
  "add_parameters pyfloat [] attributes = Inr attributes"
| "add_parameters pyfloat (parameter # rest) attributes =
     (case set_parameter pyfloat parameter of
        Inl e \<Rightarrow> Inl e
      | Inr param \<Rightarrow>
          add_parameters pyfloat rest
            (attributes\<lparr>shader_parameters := shader_parameters attributes @ [param]\<rparr>))"

fun add_textures :: "texture_dict list \<Rightarrow> 'f I3DMaterialShader \<Rightarrow> 'f I3DMaterialShader" where
  "add_textures [] attributes = attributes"
| "add_textures (texture # rest) attributes =
     add_textures rest
       (attributes\<lparr>shader_textures := shader_textures attributes @ [set_texture texture]\<rparr>)"

text \<open>The loop \<^verbatim>\<open>for group in parameter_groups\<close>.\<close>

fun add_groups ::
  "(string \<Rightarrow> 'f option) \<Rightarrow> (string \<rightharpoonup> parameter_dict list) \<Rightarrow> (string \<rightharpoonup> texture_dict list)
     \<Rightarrow> string list \<Rightarrow> ('f::zero) I3DMaterialShader \<Rightarrow> error + 'f I3DMaterialShader" where
  "add_groups pyfloat gp gt [] attributes = Inr attributes"
| "add_groups pyfloat gp gt (g # rest) attributes =
     (case (case gp g of
              None \<Rightarrow> Inr attributes
            | Some parameter_group \<Rightarrow> add_parameters pyfloat parameter_group attributes) of
        Inl e \<Rightarrow> Inl e
      | Inr a1 \<Rightarrow>
          add_groups pyfloat gp gt rest
            (case gt g of
               None \<Rightarrow> a1
             | Some texture_group \<Rightarrow> add_textures texture_group a1))"

text \<open>The operator once \<^verbatim>\<open>attributes\<close> is bound to the attributes of material \<open>m\<close>.\<close>

definition load_custom_shader_variation_on ::
  "(string \<Rightarrow> 'f option) \<Rightarrow> (shader_path \<Rightarrow> element option) \<Rightarrow> string \<Rightarrow> ('f::zero) world
     \<Rightarrow> error + (status \<times> 'f world)" where
  "load_custom_shader_variation_on pyfloat parse m w =
     (let attributes = i3d_attributes w m;
          path = shader_file_path w attributes
      in case parse path of
           None \<Rightarrow>
             (case clear_shader (w\<lparr>printed := printed w @ [Print_doesnt_exist path]\<rparr>) of
                Inl e \<Rightarrow> Inl e
              | Inr w' \<Rightarrow> Inr (FINISHED, w'))
         | Some root \<Rightarrow>
             (let cleared = attributes\<lparr>shader_parameters := [], shader_textures := []\<rparr>
              in case grouped_parameters root of
                   Inl e \<Rightarrow> Inl e
                 | Inr gp \<Rightarrow>
                     (case grouped_textures root of
                        Inl e \<Rightarrow> Inl e
                      | Inr gt \<Rightarrow>
                          (case parameter_groups root (variation cleared) of
                             Inl e \<Rightarrow> Inl e
                           | Inr groups \<Rightarrow>
                               (case add_groups pyfloat gp gt groups cleared of
                                  Inl e \<Rightarrow> Inl e
                                | Inr a' \<Rightarrow>
                                    Inr (FINISHED,
                                         w\<lparr>i3d_attributes := (i3d_attributes w)(m := a')\<rparr>))))))"

definition load_custom_shader_variation_execute ::
  "(string \<Rightarrow> 'f option) \<Rightarrow> (shader_path \<Rightarrow> element option) \<Rightarrow> string \<Rightarrow> ('f::zero) world
     \<Rightarrow> error + (status \<times> 'f world)" where
  "load_custom_shader_variation_execute pyfloat parse material_name w =
     (if material_name \<noteq> []
      then
        (if material_name \<notin> set (materials w)
         then Inr (CANCELLED,
                   w\<lparr>printed := printed w @
                      [Report ''ERROR'' (''Material '' @ [CHR 0x27] @ material_name @ [CHR 0x27]
                                          @ '' not found.'')]\<rparr>)
         else load_custom_shader_variation_on pyfloat parse material_name w)
      else
        (case context_object w of
           Some (Some m) \<Rightarrow> load_custom_shader_variation_on pyfloat parse m w
         | _ \<Rightarrow> Inr (FINISHED, w)))"

section \<open>The cache of shader names\<close>

text \<open>
  \<^verbatim>\<open>shader_items_update\<close> reads and writes the module variable \<^verbatim>\<open>SHADER_CACHE\<close>
  (\<open>None\<close> at start). The model takes the cache and returns the items with the cache
  after the call. The directory listing is a parameter: \<open>shader_files data_path\<close> is
  \<open>None\<close> when the directory \<^verbatim>\<open>shaders\<close> under the data path does not exist, and else
  the stems of its \<^verbatim>\<open>*.xml\<close> files. A cache that is \<^verbatim>\<open>None\<close> or empty is false in
  the test \<^verbatim>\<open>if SHADER_CACHE\<close>.
\<close>

definition shader_items_update ::
  "(string \<Rightarrow> string list option) \<Rightarrow> string \<Rightarrow> item list option \<Rightarrow> item list \<times> item list option" where
  "shader_items_update shader_files data_path SHADER_CACHE =
     (case SHADER_CACHE of
        Some (c # cs) \<Rightarrow> (STATIC_ITEMS @ (c # cs), SHADER_CACHE)
      | _ \<Rightarrow>
          (if data_path = [] then
             ([(''No shaders found'', ''No shaders found'', ''No shaders found'')], SHADER_CACHE)
           else
             (case shader_files data_path of
                None \<Rightarrow>
                  ([(''No shaders found'', ''No shaders found'', ''No shaders found'')], SHADER_CACHE)
              | Some stems \<Rightarrow>
                  (let cache = map (\<lambda>shader. (shader, shader, ''Shader'')) stems
                   in (STATIC_ITEMS @ cache, Some cache)))))"

text \<open>A session: the queries made one after another, each with the host as it is then.\<close>

fun queries ::
  "((string \<Rightarrow> string list option) \<times> string) list \<Rightarrow> item list option
     \<Rightarrow> item list list \<times> item list option" where
  "queries [] cache = ([], cache)"
| "queries ((shader_files, data_path) # rest) cache =
     (case shader_items_update shader_files data_path cache of
        (items, cache') \<Rightarrow>
          (case queries rest cache' of (results, final) \<Rightarrow> (items # results, final)))"

section \<open>Properties of the parameter parser\<close>

lemma type_length_cases:
  "(ty, n) \<in> set [(''float'', 1), (''float2'', 2), (''float3'', 3), (''float4'', 4)] \<Longrightarrow> type_length ty = Some n"
  by (auto simp: type_length_def)

lemma type_length_None:
  "ty \<notin> set [''float'', ''float2'', ''float3'', ''float4''] \<Longrightarrow> type_length ty = None"
  by (simp add: type_length_def)

lemma parse_default_Some:
  "0 < n \<Longrightarrow> \<exists>v. parse_default (Some n) src = Inr v \<and> length v = n \<and>
     (let given = (case src of None \<Rightarrow> [] | Some s \<Rightarrow> split s)
      in length given \<le> n \<longrightarrow> v = given @ replicate (n - length given) ''0'')"
  by (cases src) (auto simp: parse_default_def Let_def)

lemma parse_default_None: "parse_default None src = Inl NameError"
  by (simp add: parse_default_def)

lemma array_elements_Inr:
  "array_elements nmo ty len cs = Inr ds \<Longrightarrow>
     length ds = length cs \<and>
     (\<forall>i < length cs. \<exists>nm ix. nmo = Some nm \<and> map_of (attrib (cs ! i)) ''index'' = Some ix \<and>
        param_name (ds ! i) = nm @ ix \<and> param_type (ds ! i) = ty \<and>
        parse_default len (etext (cs ! i)) = Inr (default_value (ds ! i)))"
proof (induction cs arbitrary: ds)
  case Nil
  then show ?case by simp
next
  case (Cons c cs)
  from Cons.prems obtain nm ix dv ds' where
    nm: "nmo = Some nm" and ix: "map_of (attrib c) ''index'' = Some ix"
    and dv: "parse_default len (etext c) = Inr dv"
    and rest: "array_elements nmo ty len cs = Inr ds'"
    and ds: "ds = \<lparr>param_name = nm @ ix, param_type = ty, default_value = dv\<rparr> # ds'"
    by (auto split: option.splits sum.splits)
  from Cons.IH[OF rest] have ih: "length ds' = length cs"
    "\<And>i. i < length cs \<Longrightarrow> \<exists>nm ix. nmo = Some nm \<and> map_of (attrib (cs ! i)) ''index'' = Some ix \<and>
        param_name (ds' ! i) = nm @ ix \<and> param_type (ds' ! i) = ty \<and>
        parse_default len (etext (cs ! i)) = Inr (default_value (ds' ! i))"
    by auto
  show ?case
  proof (intro conjI allI impI)
    show "length ds = length (c # cs)" using ih(1) ds by simp
  next
    fix i assume "i < length (c # cs)"
    then show "\<exists>nm ix. nmo = Some nm \<and> map_of (attrib ((c # cs) ! i)) ''index'' = Some ix \<and>
        param_name (ds ! i) = nm @ ix \<and> param_type (ds ! i) = ty \<and>
        parse_default len (etext ((c # cs) ! i)) = Inr (default_value (ds ! i))"
      using nm ix dv ds ih(2) by (cases i) auto
  qed
qed

lemma array_elements_total:
  "0 < n \<Longrightarrow> \<forall>c \<in> set cs. map_of (attrib c) ''index'' \<noteq> None \<Longrightarrow>
     \<exists>ds. array_elements (Some nm) ty (Some n) cs = Inr ds"
proof (induction cs)
  case Nil
  then show ?case by simp
next
  case (Cons c cs)
  then obtain ds where "array_elements (Some nm) ty (Some n) cs = Inr ds" by auto
  moreover obtain v where "parse_default (Some n) (etext c) = Inr v"
    using parse_default_Some[OF Cons.prems(1)] by blast
  moreover obtain ix where "map_of (attrib c) ''index'' = Some ix" using Cons.prems(2) by auto
  ultimately show ?case by simp
qed


lemmas eval_defs = parameter_element_as_dict_def type_length_def parse_default_def split_def is_space_def

text \<open>
  Claim C1. A parameter entry of type \<^verbatim>\<open>float\<close> whose default-value string is
  \<^verbatim>\<open>1 2 3 4\<close>: the four words exceed the arity 1, the slice \<^verbatim>\<open>[:type_length-1]\<close> keeps
  none of them, and the padding gives the single value \<^verbatim>\<open>0\<close>. The first component
  \<^verbatim>\<open>1\<close> is lost, so the derived default value is not the value \<^verbatim>\<open>1\<close>.
\<close>

theorem scalar_default_of_four_values:
  "parameter_element_as_dict
     (Element ''Parameter''
        [(''name'', ''p''), (''type'', ''float''), (''defaultValue'', ''1 2 3 4'')] None []) =
   Inr [\<lparr>param_name = ''p'', param_type = ''float'', default_value = [''0'']\<rparr>]"
  by (simp add: eval_defs)

text \<open>
  Claim C4. For every parameter entry whose type is one of \<^verbatim>\<open>float\<close>, \<^verbatim>\<open>float2\<close>,
  \<^verbatim>\<open>float3\<close>, \<^verbatim>\<open>float4\<close>, every dictionary the parser derives from it has a default
  value whose length is the arity of the type. When the words given (in the
  \<^verbatim>\<open>defaultValue\<close> attribute, or in the text of a child for an array entry) are no more
  than the arity, the default value is these words followed by zeros. A \<^verbatim>\<open>float3\<close> entry
  with no default attribute has the default value \<^verbatim>\<open>0 0 0\<close>.
\<close>

theorem default_value_length_is_arity:
  assumes ty: "map_of (attrib parameter) ''type'' = Some ty"
    and n: "(ty, n) \<in> set [(''float'', 1), (''float2'', 2), (''float3'', 3), (''float4'', 4)]"
    and ok: "parameter_element_as_dict parameter = Inr ds"
    and d: "d \<in> set ds"
  shows "length (default_value d) = n \<and>
    (map_of (attrib parameter) ''arraySize'' = None \<longrightarrow>
       (let given = (case map_of (attrib parameter) ''defaultValue'' of
                       None \<Rightarrow> [] | Some s \<Rightarrow> split s)
        in length given \<le> n \<longrightarrow> default_value d = given @ replicate (n - length given) ''0'')) \<and>
    (map_of (attrib parameter) ''arraySize'' \<noteq> None \<longrightarrow>
       (\<exists>child \<in> set (children parameter).
          let given = (case etext child of None \<Rightarrow> [] | Some s \<Rightarrow> split s)
          in length given \<le> n \<longrightarrow> default_value d = given @ replicate (n - length given) ''0'')) \<and>
    (ty = ''float3'' \<and> map_of (attrib parameter) ''arraySize'' = None \<and>
     map_of (attrib parameter) ''defaultValue'' = None \<longrightarrow>
       default_value d = [''0'', ''0'', ''0''])"
proof -
  have tl: "type_length ty = Some n" using n by (rule type_length_cases)
  have pos: "0 < n" using n by auto
  have pd: "\<And>src v. parse_default (Some n) src = Inr v \<Longrightarrow> length v = n \<and>
     (let given = (case src of None \<Rightarrow> [] | Some s \<Rightarrow> split s)
      in length given \<le> n \<longrightarrow> v = given @ replicate (n - length given) ''0'')"
    using parse_default_Some[OF pos] by (metis sum.inject(2))
  show ?thesis
  proof (cases "map_of (attrib parameter) ''arraySize'' = None")
    case True
    from ok ty True tl obtain nm where
      dv: "parse_default (Some n) (map_of (attrib parameter) ''defaultValue'') = Inr (default_value d)"
      using d by (auto simp: parameter_element_as_dict_def split: option.splits sum.splits)
    from pd[OF dv] have len: "length (default_value d) = n"
      and fill: "let given = (case map_of (attrib parameter) ''defaultValue'' of
                       None \<Rightarrow> [] | Some s \<Rightarrow> split s)
        in length given \<le> n \<longrightarrow> default_value d = given @ replicate (n - length given) ''0''"
      by auto
    have three: "ty = ''float3'' \<and> map_of (attrib parameter) ''defaultValue'' = None \<longrightarrow>
       default_value d = [''0'', ''0'', ''0'']"
      using fill n by (auto simp: eval_nat_numeral)
    show ?thesis using True len fill three by simp
  next
    case False
    from ok ty False tl have arr: "array_elements (map_of (attrib parameter) ''name'') ty (Some n)
        (children parameter) = Inr ds"
      by (auto simp: parameter_element_as_dict_def)
    from d obtain i where i: "i < length ds" "ds ! i = d" by (auto simp: in_set_conv_nth)
    from array_elements_Inr[OF arr] i have ic: "i < length (children parameter)"
      and dv: "parse_default (Some n) (etext (children parameter ! i)) = Inr (default_value d)"
      by auto
    from pd[OF dv] have len: "length (default_value d) = n"
      and fill: "let given = (case etext (children parameter ! i) of None \<Rightarrow> [] | Some s \<Rightarrow> split s)
        in length given \<le> n \<longrightarrow> default_value d = given @ replicate (n - length given) ''0''"
      by auto
    have "children parameter ! i \<in> set (children parameter)" using ic by simp
    with fill have "\<exists>child \<in> set (children parameter).
          let given = (case etext child of None \<Rightarrow> [] | Some s \<Rightarrow> split s)
          in length given \<le> n \<longrightarrow> default_value d = given @ replicate (n - length given) ''0''"
      by blast
    then show ?thesis using False len by auto
  qed
qed

text \<open>The theorem at a \<^verbatim>\<open>float3\<close> entry without default.\<close>

theorem default_value_length_is_arity_witness:
  "map_of (attrib (Element ''Parameter'' [(''name'', ''v''), (''type'', ''float3'')] None []))
     ''type'' = Some ''float3'' \<and>
   (''float3'', 3) \<in> set [(''float'', 1), (''float2'', 2), (''float3'', 3), (''float4'', 4::nat)] \<and>
   parameter_element_as_dict (Element ''Parameter'' [(''name'', ''v''), (''type'', ''float3'')] None []) =
     Inr [\<lparr>param_name = ''v'', param_type = ''float3'', default_value = [''0'', ''0'', ''0'']\<rparr>] \<and>
   length (default_value \<lparr>param_name = ''v'', param_type = ''float3'',
                          default_value = [''0'', ''0'', ''0'']\<rparr>) = 3"
proof -
  let ?p = "Element ''Parameter'' [(''name'', ''v''), (''type'', ''float3'')] None []"
  let ?d = "\<lparr>param_name = ''v'', param_type = ''float3'', default_value = [''0'', ''0'', ''0'']\<rparr>"
  have h1: "map_of (attrib ?p) ''type'' = Some ''float3''" by simp
  have h2: "(''float3'', 3) \<in> set [(''float'', 1), (''float2'', 2), (''float3'', 3), (''float4'', 4::nat)]"
    by simp
  have h3: "parameter_element_as_dict ?p = Inr [?d]" by (simp add: eval_defs numeral_3_eq_3)
  have h4: "?d \<in> set [?d]" by simp
  from default_value_length_is_arity[OF h1 h2 h3 h4] show ?thesis using h1 h2 h3 by simp
qed


lemma type_length_pos:
  "ty \<in> set [''float'', ''float2'', ''float3'', ''float4''] \<Longrightarrow> \<exists>n > 0. type_length ty = Some n"
  by (auto simp: type_length_def)

text \<open>
  Claim C5. For a parameter entry with an \<^verbatim>\<open>arraySize\<close> attribute, a known type, a name
  and children that all carry an \<^verbatim>\<open>index\<close> attribute, the parser returns one dictionary
  per child, in the order of the children: its name is the name of the entry followed by
  the index of the child, its type is the type of the entry, and its default value is the
  text of the child parsed by \<^verbatim>\<open>parse_default\<close>.
\<close>

theorem array_entry_one_dict_per_child:
  assumes arr: "map_of (attrib parameter) ''arraySize'' \<noteq> None"
    and ty: "map_of (attrib parameter) ''type'' = Some ty"
    and known: "ty \<in> set [''float'', ''float2'', ''float3'', ''float4'']"
    and nm: "map_of (attrib parameter) ''name'' = Some nm"
    and ix: "\<forall>child \<in> set (children parameter). map_of (attrib child) ''index'' \<noteq> None"
  shows "\<exists>ds. parameter_element_as_dict parameter = Inr ds \<and>
           length ds = length (children parameter) \<and>
           (\<forall>i < length (children parameter).
              \<exists>ix. map_of (attrib (children parameter ! i)) ''index'' = Some ix \<and>
                   param_name (ds ! i) = nm @ ix \<and>
                   param_type (ds ! i) = ty \<and>
                   parse_default (type_length ty) (etext (children parameter ! i)) =
                     Inr (default_value (ds ! i)))"
proof -
  from type_length_pos[OF known] obtain n where n: "0 < n" "type_length ty = Some n" by blast
  from array_elements_total[OF n(1) ix] obtain ds where
    ds: "array_elements (Some nm) ty (Some n) (children parameter) = Inr ds" by blast
  have res: "parameter_element_as_dict parameter = Inr ds"
    using arr ty nm n(2) ds by (auto simp: parameter_element_as_dict_def)
  from array_elements_Inr[OF ds] n(2) have
    "length ds = length (children parameter)"
    "\<forall>i < length (children parameter).
              \<exists>ix. map_of (attrib (children parameter ! i)) ''index'' = Some ix \<and>
                   param_name (ds ! i) = nm @ ix \<and>
                   param_type (ds ! i) = ty \<and>
                   parse_default (type_length ty) (etext (children parameter ! i)) =
                     Inr (default_value (ds ! i))"
    by auto
  with res show ?thesis by blast
qed

text \<open>The theorem at an array entry with three children.\<close>

theorem array_entry_one_dict_per_child_witness:
  "map_of (attrib (Element ''Parameter''
       [(''name'', ''lod''), (''type'', ''float2''), (''arraySize'', ''3'')] None
       [Element ''Default'' [(''index'', ''0'')] (Some ''1 2'') [],
        Element ''Default'' [(''index'', ''1'')] (Some ''3'') [],
        Element ''Default'' [(''index'', ''2'')] None []])) ''arraySize'' \<noteq> None \<and>
   parameter_element_as_dict (Element ''Parameter''
       [(''name'', ''lod''), (''type'', ''float2''), (''arraySize'', ''3'')] None
       [Element ''Default'' [(''index'', ''0'')] (Some ''1 2'') [],
        Element ''Default'' [(''index'', ''1'')] (Some ''3'') [],
        Element ''Default'' [(''index'', ''2'')] None []]) =
     Inr [\<lparr>param_name = ''lod0'', param_type = ''float2'', default_value = [''1'', ''2'']\<rparr>,
          \<lparr>param_name = ''lod1'', param_type = ''float2'', default_value = [''3'', ''0'']\<rparr>,
          \<lparr>param_name = ''lod2'', param_type = ''float2'', default_value = [''0'', ''0'']\<rparr>] \<and>
   (\<exists>ds. parameter_element_as_dict (Element ''Parameter''
       [(''name'', ''lod''), (''type'', ''float2''), (''arraySize'', ''3'')] None
       [Element ''Default'' [(''index'', ''0'')] (Some ''1 2'') [],
        Element ''Default'' [(''index'', ''1'')] (Some ''3'') [],
        Element ''Default'' [(''index'', ''2'')] None []]) = Inr ds \<and> length ds = 3)"
proof -
  let ?p = "Element ''Parameter''
       [(''name'', ''lod''), (''type'', ''float2''), (''arraySize'', ''3'')] None
       [Element ''Default'' [(''index'', ''0'')] (Some ''1 2'') [],
        Element ''Default'' [(''index'', ''1'')] (Some ''3'') [],
        Element ''Default'' [(''index'', ''2'')] None []]"
  have h1: "map_of (attrib ?p) ''arraySize'' \<noteq> None" by simp
  have h2: "map_of (attrib ?p) ''type'' = Some ''float2''" by simp
  have h3: "''float2'' \<in> set [''float'', ''float2'', ''float3'', ''float4'']" by simp
  have h4: "map_of (attrib ?p) ''name'' = Some ''lod''" by simp
  have h5: "\<forall>child \<in> set (children ?p). map_of (attrib child) ''index'' \<noteq> None" by simp
  have ev: "parameter_element_as_dict ?p =
     Inr [\<lparr>param_name = ''lod0'', param_type = ''float2'', default_value = [''1'', ''2'']\<rparr>,
          \<lparr>param_name = ''lod1'', param_type = ''float2'', default_value = [''3'', ''0'']\<rparr>,
          \<lparr>param_name = ''lod2'', param_type = ''float2'', default_value = [''0'', ''0'']\<rparr>]"
    by (simp add: eval_defs numeral_2_eq_2)
  from array_entry_one_dict_per_child[OF h1 h2 h3 h4 h5]
  obtain ds where "parameter_element_as_dict ?p = Inr ds" "length ds = length (children ?p)"
    by blast
  then have "\<exists>ds. parameter_element_as_dict ?p = Inr ds \<and> length ds = 3" by simp
  with h1 ev show ?thesis by blast
qed

text \<open>
  Claim C9. A parameter entry with a name and with a type other than \<^verbatim>\<open>float\<close>,
  \<^verbatim>\<open>float2\<close>, \<^verbatim>\<open>float3\<close>, \<^verbatim>\<open>float4\<close> makes \<^verbatim>\<open>parameter_element_as_dict\<close> raise as
  soon as \<^verbatim>\<open>parse_default\<close> is called, because \<^verbatim>\<open>type_length\<close> was never assigned:
  always for an entry without \<^verbatim>\<open>arraySize\<close>, and for an array entry when it has a first
  child with an index.
\<close>

theorem unknown_type_raises:
  assumes ty: "map_of (attrib parameter) ''type'' = Some ty"
    and unknown: "ty \<notin> set [''float'', ''float2'', ''float3'', ''float4'']"
    and nm: "map_of (attrib parameter) ''name'' \<noteq> None"
    and called: "map_of (attrib parameter) ''arraySize'' = None \<or>
                 (children parameter \<noteq> [] \<and>
                  map_of (attrib (hd (children parameter))) ''index'' \<noteq> None)"
  shows "parameter_element_as_dict parameter = Inl NameError"
proof -
  have tl: "type_length ty = None" using unknown by (rule type_length_None)
  show ?thesis
  proof (cases "map_of (attrib parameter) ''arraySize'' = None")
    case True
    then show ?thesis using ty nm tl
      by (auto simp: parameter_element_as_dict_def parse_default_None)
  next
    case False
    with called obtain c cs where cs: "children parameter = c # cs"
      and ix: "map_of (attrib c) ''index'' \<noteq> None"
      by (cases "children parameter") auto
    show ?thesis using False ty nm tl cs ix
      by (auto simp: parameter_element_as_dict_def parse_default_None)
  qed
qed

text \<open>The theorem at an entry of type \<^verbatim>\<open>int\<close>.\<close>

theorem unknown_type_raises_witness:
  "map_of (attrib (Element ''Parameter'' [(''name'', ''p''), (''type'', ''int'')] None []))
     ''type'' = Some ''int'' \<and>
   ''int'' \<notin> set [''float'', ''float2'', ''float3'', ''float4''] \<and>
   parameter_element_as_dict (Element ''Parameter'' [(''name'', ''p''), (''type'', ''int'')] None []) =
     Inl NameError"
proof -
  let ?p = "Element ''Parameter'' [(''name'', ''p''), (''type'', ''int'')] None []"
  have h1: "map_of (attrib ?p) ''type'' = Some ''int''" by simp
  have h2: "''int'' \<notin> set [''float'', ''float2'', ''float3'', ''float4'']" by simp
  have h3: "map_of (attrib ?p) ''name'' \<noteq> None" by simp
  have h4: "map_of (attrib ?p) ''arraySize'' = None \<or>
            (children ?p \<noteq> [] \<and> map_of (attrib (hd (children ?p))) ''index'' \<noteq> None)" by simp
  from unknown_type_raises[OF h1 h2 h3 h4] show ?thesis using h1 h2 by simp
qed

section \<open>Properties of the grouping\<close>

lemma group_of_upd:
  "group_of (grouped(k \<mapsto> xs)) g = (if g = k then xs else group_of grouped g)"
  by (simp add: group_of_def)

lemma group_of_empty: "group_of Map.empty g = []"
  by (simp add: group_of_def)

lemma group_parameters_Inr:
  "group_parameters ps grouped = Inr grouped' \<Longrightarrow>
     (\<forall>p \<in> set ps. \<exists>ds. parameter_element_as_dict p = Inr ds) \<and>
     (\<forall>g. group_of grouped' g = group_of grouped g @
        concat (map (\<lambda>p. case parameter_element_as_dict p of Inl e \<Rightarrow> [] | Inr ds \<Rightarrow> ds)
                  (filter (\<lambda>p. attrib_get p ''group'' ''mandatory'' = g) ps)))"
proof (induction ps arbitrary: grouped)
  case Nil
  then show ?case by simp
next
  case (Cons p ps)
  from Cons.prems obtain ds where ds: "parameter_element_as_dict p = Inr ds"
    and rest: "group_parameters ps
        (grouped(attrib_get p ''group'' ''mandatory'' \<mapsto>
           group_of grouped (attrib_get p ''group'' ''mandatory'') @ ds)) = Inr grouped'"
    by (auto simp: Let_def split: sum.splits)
  from Cons.IH[OF rest] have ok: "\<forall>p \<in> set ps. \<exists>ds. parameter_element_as_dict p = Inr ds"
    and ih: "\<And>g. group_of grouped' g =
        (if g = attrib_get p ''group'' ''mandatory''
         then group_of grouped (attrib_get p ''group'' ''mandatory'') @ ds
         else group_of grouped g) @
        concat (map (\<lambda>p. case parameter_element_as_dict p of Inl e \<Rightarrow> [] | Inr ds \<Rightarrow> ds)
                  (filter (\<lambda>p. attrib_get p ''group'' ''mandatory'' = g) ps))"
    unfolding group_of_upd by blast+
  show ?case
  proof (intro conjI allI)
    show "\<forall>p \<in> set (p # ps). \<exists>ds. parameter_element_as_dict p = Inr ds"
      using ok ds by simp
  next
    fix g
    show "group_of grouped' g = group_of grouped g @
        concat (map (\<lambda>p. case parameter_element_as_dict p of Inl e \<Rightarrow> [] | Inr ds \<Rightarrow> ds)
                  (filter (\<lambda>p. attrib_get p ''group'' ''mandatory'' = g) (p # ps)))"
      using ih[of g] ds by simp
  qed
qed

lemma group_textures_Inr:
  "group_textures ts grouped = Inr grouped' \<Longrightarrow>
     (\<forall>g. map Inr (group_of grouped' g) = map Inr (group_of grouped g) @
        map texture_element_as_dict
          (filter (\<lambda>t. map_of (attrib t) ''defaultColorProfile'' \<noteq> None \<and>
                        attrib_get t ''group'' ''mandatory'' = g) ts))"
proof (induction ts arbitrary: grouped)
  case Nil
  then show ?case by simp
next
  case (Cons t ts)
  show ?case
  proof (cases "map_of (attrib t) ''defaultColorProfile'' = None")
    case True
    with Cons.prems have "group_textures ts grouped = Inr grouped'" by simp
    from Cons.IH[OF this] True show ?thesis by simp
  next
    case False
    with Cons.prems obtain d where d: "texture_element_as_dict t = Inr d"
      and rest: "group_textures ts
        (grouped(attrib_get t ''group'' ''mandatory'' \<mapsto>
           group_of grouped (attrib_get t ''group'' ''mandatory'') @ [d])) = Inr grouped'"
      by (auto simp: Let_def split: sum.splits)
    from Cons.IH[OF rest] have ih: "\<And>g. map Inr (group_of grouped' g) =
        map Inr (if g = attrib_get t ''group'' ''mandatory''
                 then group_of grouped (attrib_get t ''group'' ''mandatory'') @ [d]
                 else group_of grouped g) @
        map texture_element_as_dict
          (filter (\<lambda>t. map_of (attrib t) ''defaultColorProfile'' \<noteq> None \<and>
                        attrib_get t ''group'' ''mandatory'' = g) ts)"
      unfolding group_of_upd by blast
    show ?thesis
    proof
      fix g
      show "map Inr (group_of grouped' g) = map Inr (group_of grouped g) @
        map texture_element_as_dict
          (filter (\<lambda>t. map_of (attrib t) ''defaultColorProfile'' \<noteq> None \<and>
                        attrib_get t ''group'' ''mandatory'' = g) (t # ts))"
        using ih[of g] d False by simp
    qed
  qed
qed

lemma group_parameters_dom:
  "group_parameters ps grouped = Inr grouped' \<Longrightarrow>
     dom grouped' = dom grouped \<union> (\<lambda>p. attrib_get p ''group'' ''mandatory'') ` set ps"
proof (induction ps arbitrary: grouped)
  case Nil
  then show ?case by simp
next
  case (Cons p ps)
  from Cons.prems obtain ds where
    rest: "group_parameters ps
        (grouped(attrib_get p ''group'' ''mandatory'' \<mapsto>
           group_of grouped (attrib_get p ''group'' ''mandatory'') @ ds)) = Inr grouped'"
    by (auto simp: Let_def split: sum.splits)
  from Cons.IH[OF rest] show ?case by auto
qed


lemma group_textures_dom:
  "group_textures ts grouped = Inr grouped' \<Longrightarrow>
     dom grouped' = dom grouped \<union>
       (\<lambda>t. attrib_get t ''group'' ''mandatory'') `
         {t \<in> set ts. map_of (attrib t) ''defaultColorProfile'' \<noteq> None}"
proof (induction ts arbitrary: grouped)
  case Nil
  then show ?case by simp
next
  case (Cons t ts)
  show ?case
  proof (cases "map_of (attrib t) ''defaultColorProfile'' = None")
    case True
    with Cons.prems have "group_textures ts grouped = Inr grouped'" by simp
    from Cons.IH[OF this] True show ?thesis by auto
  next
    case False
    with Cons.prems obtain d where
      rest: "group_textures ts
        (grouped(attrib_get t ''group'' ''mandatory'' \<mapsto>
           group_of grouped (attrib_get t ''group'' ''mandatory'') @ [d])) = Inr grouped'"
      by (auto simp: Let_def split: sum.splits)
    from Cons.IH[OF rest] have "dom grouped' =
        insert (attrib_get t ''group'' ''mandatory'') (dom grouped) \<union>
        (\<lambda>t. attrib_get t ''group'' ''mandatory'') `
          {t \<in> set ts. map_of (attrib t) ''defaultColorProfile'' \<noteq> None}"
      by (simp only: dom_fun_upd option.distinct if_False)
    moreover have "{u \<in> set (t # ts). map_of (attrib u) ''defaultColorProfile'' \<noteq> None} =
        insert t {u \<in> set ts. map_of (attrib u) ''defaultColorProfile'' \<noteq> None}"
      using False by auto
    ultimately show ?thesis by auto
  qed
qed

lemma grouped_textures_Inr:
  assumes "grouped_textures root = Inr gt"
  shows "map Inr (group_of gt g) =
         map texture_element_as_dict
           (filter (\<lambda>t. map_of (attrib t) ''defaultColorProfile'' \<noteq> None \<and>
                         attrib_get t ''group'' ''mandatory'' = g)
              (case efind root ''Textures'' of None \<Rightarrow> [] | Some ts \<Rightarrow> children ts))"
proof (cases "efind root ''Textures''")
  case None
  with assms have "gt = Map.empty" by (simp add: grouped_textures_def)
  with None show ?thesis by (simp add: group_of_empty)
next
  case (Some ts)
  with assms have "group_textures (children ts) Map.empty = Inr gt"
    by (simp add: grouped_textures_def)
  from group_textures_Inr[OF this] Some show ?thesis by (simp add: group_of_empty)
qed

lemma grouped_textures_dom:
  assumes "grouped_textures root = Inr gt"
  shows "dom gt = (\<lambda>t. attrib_get t ''group'' ''mandatory'') `
           {t \<in> set (case efind root ''Textures'' of None \<Rightarrow> [] | Some ts \<Rightarrow> children ts).
              map_of (attrib t) ''defaultColorProfile'' \<noteq> None}"
proof (cases "efind root ''Textures''")
  case None
  with assms have "gt = Map.empty" by (simp add: grouped_textures_def)
  with None show ?thesis by simp
next
  case (Some ts)
  with assms have "group_textures (children ts) Map.empty = Inr gt"
    by (simp add: grouped_textures_def)
  from group_textures_dom[OF this] Some show ?thesis by simp
qed

lemma grouped_parameters_Inr:
  assumes "grouped_parameters root = Inr gp"
  shows "group_of gp g =
         concat (map (\<lambda>p. case parameter_element_as_dict p of Inl e \<Rightarrow> [] | Inr ds \<Rightarrow> ds)
           (filter (\<lambda>p. attrib_get p ''group'' ''mandatory'' = g)
              (case efind root ''Parameters'' of None \<Rightarrow> [] | Some ps \<Rightarrow> children ps)))"
proof (cases "efind root ''Parameters''")
  case None
  with assms have "gp = Map.empty" by (simp add: grouped_parameters_def)
  with None show ?thesis by (simp add: group_of_empty)
next
  case (Some ps)
  with assms have "group_parameters (children ps) Map.empty = Inr gp"
    by (simp add: grouped_parameters_def)
  from group_parameters_Inr[OF this] Some show ?thesis by (simp add: group_of_empty)
qed

lemma map_Inr_eq_imp:
  "map Inr ds = map f ts \<Longrightarrow>
     (\<forall>t \<in> set ts. \<exists>d. f t = Inr d \<and> d \<in> set ds) \<and> (\<forall>d \<in> set ds. \<exists>t \<in> set ts. f t = Inr d)"
proof (induction ts arbitrary: ds)
  case Nil
  then show ?case by simp
next
  case (Cons t ts)
  then obtain d ds' where ds: "ds = d # ds'" "f t = Inr d" "map Inr ds' = map f ts"
    by (cases ds) auto
  from Cons.IH[OF ds(3)] ds(1,2) show ?case by auto
qed

text \<open>
  Claim C6. Of the entries of the \<^verbatim>\<open>Textures\<close> listing, exactly those with a
  \<^verbatim>\<open>defaultColorProfile\<close> attribute are grouped: each such entry has its dictionary in a
  group, every dictionary in a group comes from such an entry, each group holds as many
  dictionaries as there are entries with the attribute in that group, and a group exists
  only when an entry with the attribute belongs to it. An entry without the attribute
  adds nothing to any group.
\<close>

theorem textures_need_color_profile:
  assumes gt: "grouped_textures root = Inr gt"
    and entries: "entries = (case efind root ''Textures'' of None \<Rightarrow> [] | Some ts \<Rightarrow> children ts)"
  shows "(\<forall>t \<in> set entries. map_of (attrib t) ''defaultColorProfile'' \<noteq> None \<longrightarrow>
            (\<exists>d g. texture_element_as_dict t = Inr d \<and> d \<in> set (group_of gt g))) \<and>
         (\<forall>g d. d \<in> set (group_of gt g) \<longrightarrow>
            (\<exists>t \<in> set entries. map_of (attrib t) ''defaultColorProfile'' \<noteq> None \<and>
               texture_element_as_dict t = Inr d)) \<and>
         (\<forall>g. length (group_of gt g) =
            length (filter (\<lambda>t. map_of (attrib t) ''defaultColorProfile'' \<noteq> None \<and>
              (case map_of (attrib t) ''group'' of None \<Rightarrow> ''mandatory'' | Some x \<Rightarrow> x) = g) entries)) \<and>
         (\<forall>g. gt g \<noteq> None \<longleftrightarrow>
            (\<exists>t \<in> set entries. map_of (attrib t) ''defaultColorProfile'' \<noteq> None \<and>
              (case map_of (attrib t) ''group'' of None \<Rightarrow> ''mandatory'' | Some x \<Rightarrow> x) = g))"
proof -
  let ?in = "\<lambda>g t. map_of (attrib t) ''defaultColorProfile'' \<noteq> None \<and>
                attrib_get t ''group'' ''mandatory'' = g"
  have char: "\<And>g. map Inr (group_of gt g) = map texture_element_as_dict (filter (?in g) entries)"
    using grouped_textures_Inr[OF gt] entries by simp
  have a: "\<forall>t \<in> set entries. map_of (attrib t) ''defaultColorProfile'' \<noteq> None \<longrightarrow>
            (\<exists>d g. texture_element_as_dict t = Inr d \<and> d \<in> set (group_of gt g))"
  proof (intro ballI impI)
    fix t assume t: "t \<in> set entries" "map_of (attrib t) ''defaultColorProfile'' \<noteq> None"
    then have "t \<in> set (filter (?in (attrib_get t ''group'' ''mandatory'')) entries)" by simp
    with map_Inr_eq_imp[OF char[of "attrib_get t ''group'' ''mandatory''"]]
    show "\<exists>d g. texture_element_as_dict t = Inr d \<and> d \<in> set (group_of gt g)" by blast
  qed
  have b: "\<forall>g d. d \<in> set (group_of gt g) \<longrightarrow>
            (\<exists>t \<in> set entries. map_of (attrib t) ''defaultColorProfile'' \<noteq> None \<and>
               texture_element_as_dict t = Inr d)"
  proof (intro allI impI)
    fix g d assume "d \<in> set (group_of gt g)"
    with map_Inr_eq_imp[OF char[of g]]
    obtain t where "t \<in> set (filter (?in g) entries)" "texture_element_as_dict t = Inr d"
      by blast
    then show "\<exists>t \<in> set entries. map_of (attrib t) ''defaultColorProfile'' \<noteq> None \<and>
               texture_element_as_dict t = Inr d" by auto
  qed
  have c: "\<forall>g. length (group_of gt g) =
            length (filter (\<lambda>t. map_of (attrib t) ''defaultColorProfile'' \<noteq> None \<and>
              (case map_of (attrib t) ''group'' of None \<Rightarrow> ''mandatory'' | Some x \<Rightarrow> x) = g) entries)"
  proof
    fix g
    have "length (map Inr (group_of gt g) :: (error + texture_dict) list) =
          length (map texture_element_as_dict (filter (?in g) entries))"
      using char[of g] by simp
    then show "length (group_of gt g) =
            length (filter (\<lambda>t. map_of (attrib t) ''defaultColorProfile'' \<noteq> None \<and>
              (case map_of (attrib t) ''group'' of None \<Rightarrow> ''mandatory'' | Some x \<Rightarrow> x) = g) entries)"
      by (simp add: attrib_get_def)
  qed
  have d: "\<forall>g. gt g \<noteq> None \<longleftrightarrow>
            (\<exists>t \<in> set entries. map_of (attrib t) ''defaultColorProfile'' \<noteq> None \<and>
              (case map_of (attrib t) ''group'' of None \<Rightarrow> ''mandatory'' | Some x \<Rightarrow> x) = g)"
  proof
    fix g
    have "gt g \<noteq> None \<longleftrightarrow> g \<in> dom gt" by auto
    also have "\<dots> \<longleftrightarrow> (\<exists>t \<in> set entries. map_of (attrib t) ''defaultColorProfile'' \<noteq> None \<and>
              attrib_get t ''group'' ''mandatory'' = g)"
      unfolding grouped_textures_dom[OF gt] entries by auto
    finally show "gt g \<noteq> None \<longleftrightarrow>
            (\<exists>t \<in> set entries. map_of (attrib t) ''defaultColorProfile'' \<noteq> None \<and>
              (case map_of (attrib t) ''group'' of None \<Rightarrow> ''mandatory'' | Some x \<Rightarrow> x) = g)"
      by (simp add: attrib_get_def)
  qed
  from a b c d show ?thesis by blast
qed


lemmas grouping_defs = grouped_textures_def grouped_parameters_def efind_def attrib_get_def
  group_of_def texture_element_as_dict_def

text \<open>The theorem at a listing of three textures, the second without colour profile.\<close>

theorem textures_need_color_profile_witness:
  "grouped_textures
     (Element ''CustomShader'' [] None
        [Element ''Textures'' [] None
           [Element ''Texture'' [(''name'', ''a''), (''defaultColorProfile'', ''sRGB'')] None [],
            Element ''Texture'' [(''name'', ''b'')] None [],
            Element ''Texture'' [(''name'', ''c''), (''defaultColorProfile'', ''linearRGB''),
                                 (''group'', ''extra'')] None []]]) =
     Inr [''mandatory'' \<mapsto> [\<lparr>tex_name = ''a'', default_file = []\<rparr>],
          ''extra'' \<mapsto> [\<lparr>tex_name = ''c'', default_file = []\<rparr>]] \<and>
   (\<forall>g. length (group_of [''mandatory'' \<mapsto> [\<lparr>tex_name = ''a'', default_file = []\<rparr>],
                          ''extra'' \<mapsto> [\<lparr>tex_name = ''c'', default_file = []\<rparr>]] g) =
        length (filter (\<lambda>t. map_of (attrib t) ''defaultColorProfile'' \<noteq> None \<and>
              (case map_of (attrib t) ''group'' of None \<Rightarrow> ''mandatory'' | Some x \<Rightarrow> x) = g)
           [Element ''Texture'' [(''name'', ''a''), (''defaultColorProfile'', ''sRGB'')] None [],
            Element ''Texture'' [(''name'', ''b'')] None [],
            Element ''Texture'' [(''name'', ''c''), (''defaultColorProfile'', ''linearRGB''),
                                 (''group'', ''extra'')] None []]))"
proof -
  let ?entries = "[Element ''Texture'' [(''name'', ''a''), (''defaultColorProfile'', ''sRGB'')] None [],
            Element ''Texture'' [(''name'', ''b'')] None [],
            Element ''Texture'' [(''name'', ''c''), (''defaultColorProfile'', ''linearRGB''),
                                 (''group'', ''extra'')] None []]"
  let ?root = "Element ''CustomShader'' [] None [Element ''Textures'' [] None ?entries]"
  let ?gt = "[''mandatory'' \<mapsto> [\<lparr>tex_name = ''a'', default_file = []\<rparr>],
              ''extra'' \<mapsto> [\<lparr>tex_name = ''c'', default_file = []\<rparr>]]"
  have h1: "grouped_textures ?root = Inr ?gt" by (simp add: grouping_defs)
  have h2: "?entries = (case efind ?root ''Textures'' of None \<Rightarrow> [] | Some ts \<Rightarrow> children ts)"
    by (simp add: efind_def)
  from textures_need_color_profile[OF h1 h2] show ?thesis using h1 by blast
qed

text \<open>
  Claim C7. The group of a parameter or texture entry is its \<^verbatim>\<open>group\<close> attribute, and
  \<^verbatim>\<open>mandatory\<close> when it has none: the list stored for a group is, in document order,
  what the parser derives from the entries whose explicit or default group is that group
  (for textures, of the entries that have a colour profile).
\<close>

theorem entries_bucketed_by_group:
  assumes gp: "grouped_parameters root = Inr gp"
    and gt: "grouped_textures root = Inr gt"
    and parameters: "parameters =
           (case efind root ''Parameters'' of None \<Rightarrow> [] | Some ps \<Rightarrow> children ps)"
    and textures: "textures =
           (case efind root ''Textures'' of None \<Rightarrow> [] | Some ts \<Rightarrow> children ts)"
  shows "(\<forall>g. group_of gp g =
            concat (map (\<lambda>p. case parameter_element_as_dict p of Inl e \<Rightarrow> [] | Inr ds \<Rightarrow> ds)
              (filter (\<lambda>p. (case map_of (attrib p) ''group'' of
                               None \<Rightarrow> ''mandatory'' | Some x \<Rightarrow> x) = g) parameters))) \<and>
         (\<forall>g. map Inr (group_of gt g) =
            map texture_element_as_dict
              (filter (\<lambda>t. map_of (attrib t) ''defaultColorProfile'' \<noteq> None \<and>
                            (case map_of (attrib t) ''group'' of
                               None \<Rightarrow> ''mandatory'' | Some x \<Rightarrow> x) = g) textures))"
  using grouped_parameters_Inr[OF gp] grouped_textures_Inr[OF gt] parameters textures
  by (simp add: attrib_get_def)

text \<open>The theorem at a descriptor with two parameters and one texture.\<close>

theorem entries_bucketed_by_group_witness:
  "grouped_parameters
     (Element ''CustomShader'' [] None
        [Element ''Parameters'' [] None
           [Element ''Parameter'' [(''name'', ''p''), (''type'', ''float'')] None [],
            Element ''Parameter'' [(''name'', ''q''), (''type'', ''float2''), (''group'', ''base'')] None []],
         Element ''Textures'' [] None
           [Element ''Texture'' [(''name'', ''a''), (''defaultColorProfile'', ''sRGB'')] None []]]) =
     Inr [''mandatory'' \<mapsto> [\<lparr>param_name = ''p'', param_type = ''float'', default_value = [''0'']\<rparr>],
          ''base'' \<mapsto> [\<lparr>param_name = ''q'', param_type = ''float2'',
                             default_value = [''0'', ''0'']\<rparr>]] \<and>
   group_of [''mandatory'' \<mapsto> [\<lparr>param_name = ''p'', param_type = ''float'', default_value = [''0'']\<rparr>],
             ''base'' \<mapsto> [\<lparr>param_name = ''q'', param_type = ''float2'',
                                default_value = [''0'', ''0'']\<rparr>]] ''mandatory'' =
     concat (map (\<lambda>p. case parameter_element_as_dict p of Inl e \<Rightarrow> [] | Inr ds \<Rightarrow> ds)
       (filter (\<lambda>p. (case map_of (attrib p) ''group'' of
                        None \<Rightarrow> ''mandatory'' | Some x \<Rightarrow> x) = ''mandatory'')
          [Element ''Parameter'' [(''name'', ''p''), (''type'', ''float'')] None [],
           Element ''Parameter'' [(''name'', ''q''), (''type'', ''float2''), (''group'', ''base'')] None []]))"
proof -
  let ?ps = "[Element ''Parameter'' [(''name'', ''p''), (''type'', ''float'')] None [],
           Element ''Parameter'' [(''name'', ''q''), (''type'', ''float2''), (''group'', ''base'')] None []]"
  let ?ts = "[Element ''Texture'' [(''name'', ''a''), (''defaultColorProfile'', ''sRGB'')] None []]"
  let ?root = "Element ''CustomShader'' [] None
        [Element ''Parameters'' [] None ?ps, Element ''Textures'' [] None ?ts]"
  let ?gp = "[''mandatory'' \<mapsto> [\<lparr>param_name = ''p'', param_type = ''float'', default_value = [''0'']\<rparr>],
          ''base'' \<mapsto> [\<lparr>param_name = ''q'', param_type = ''float2'',
                             default_value = [''0'', ''0'']\<rparr>]]"
  let ?gt = "[''mandatory'' \<mapsto> [\<lparr>tex_name = ''a'', default_file = []\<rparr>]]"
  have h1: "grouped_parameters ?root = Inr ?gp"
    by (simp add: grouping_defs eval_defs numeral_2_eq_2)
  have h2: "grouped_textures ?root = Inr ?gt" by (simp add: grouping_defs)
  have h3: "?ps = (case efind ?root ''Parameters'' of None \<Rightarrow> [] | Some ps \<Rightarrow> children ps)"
    by (simp add: efind_def)
  have h4: "?ts = (case efind ?root ''Textures'' of None \<Rightarrow> [] | Some ts \<Rightarrow> children ts)"
    by (simp add: efind_def)
  from entries_bucketed_by_group[OF h1 h2 h3 h4] show ?thesis using h1 by blast
qed

section \<open>Properties of the cache\<close>

text \<open>
  Claim C8. Once \<^verbatim>\<open>SHADER_CACHE\<close> holds a non-empty list, a query returns the static
  items followed by that list and leaves the cache as it is, whatever the data path and the
  shader directory hold (they are not read); so does every query of a session of any
  length.
\<close>

theorem non_empty_cache_is_kept:
  assumes "SHADER_CACHE = Some (c # cs)"
  shows "shader_items_update shader_files data_path SHADER_CACHE =
           (STATIC_ITEMS @ (c # cs), SHADER_CACHE) \<and>
         queries session SHADER_CACHE =
           (replicate (length session) (STATIC_ITEMS @ (c # cs)), SHADER_CACHE)"
proof
  show one: "shader_items_update shader_files data_path SHADER_CACHE =
           (STATIC_ITEMS @ (c # cs), SHADER_CACHE)" for shader_files data_path
    using assms by (simp add: shader_items_update_def)
  show "queries session SHADER_CACHE =
           (replicate (length session) (STATIC_ITEMS @ (c # cs)), SHADER_CACHE)"
  proof (induction session)
    case Nil
    show ?case by simp
  next
    case (Cons q session)
    obtain shader_files data_path where q: "q = (shader_files, data_path)" by (cases q)
    show ?case using Cons.IH one[of shader_files data_path] by (simp add: q)
  qed
qed

text \<open>The theorem at a cache of one shader, with a directory that now lists another.\<close>

theorem non_empty_cache_is_kept_witness:
  "Some [(''vehicleShader'', ''vehicleShader'', ''Shader'')] =
     Some ((''vehicleShader'', ''vehicleShader'', ''Shader'') # []) \<and>
   shader_items_update (\<lambda>p. Some [''other'']) ''/data''
     (Some [(''vehicleShader'', ''vehicleShader'', ''Shader'')]) =
     ([(''None'', ''Select a shader'', ''Select a shader''),
       (''Custom'', ''Load Custom Shader'', ''Load a custom shader''),
       (''vehicleShader'', ''vehicleShader'', ''Shader'')],
      Some [(''vehicleShader'', ''vehicleShader'', ''Shader'')])"
proof -
  have h: "Some [(''vehicleShader'', ''vehicleShader'', ''Shader'')] =
     Some ((''vehicleShader'', ''vehicleShader'', ''Shader'') # [])" by simp
  from non_empty_cache_is_kept[OF h, of "\<lambda>p. Some [''other'']" "''/data''" "[]"]
  show ?thesis by (simp add: STATIC_ITEMS_def shader_default_def shader_custom_def)
qed

section \<open>Properties of the variation operator\<close>

text \<open>
  Claim C10. The variation operator raises when the active variation is not \<^verbatim>\<open>None\<close>
  and the descriptor has no \<^verbatim>\<open>Variations\<close> element, or has one without a
  \<^verbatim>\<open>Variation\<close> child of that name: on a descriptor whose parameters and textures
  parse, the attribute access on the missing element raises \<^verbatim>\<open>AttributeError\<close>, and the
  operator does not catch it.
\<close>

theorem missing_variation_raises:
  assumes resolving: "material_name = m \<and> m \<noteq> [] \<and> m \<in> set (materials w) \<or>
                      material_name = [] \<and> context_object w = Some (Some m)"
    and tree: "parse (shader_file_path w (i3d_attributes w m)) = Some root"
    and active: "variation (i3d_attributes w m) \<noteq> ''None''"
    and gp: "grouped_parameters root = Inr gp"
    and gt: "grouped_textures root = Inr gt"
    and missing: "efind root ''Variations'' = None \<or>
                  (\<exists>vs. efind root ''Variations'' = Some vs \<and>
                        CHR 0x27 \<notin> set (variation (i3d_attributes w m)) \<and>
                        \<not> (\<exists>c \<in> set (children vs). tag c = ''Variation'' \<and>
                              map_of (attrib c) ''name'' = Some (variation (i3d_attributes w m))))"
  shows "load_custom_shader_variation_execute pyfloat parse material_name w = Inl AttributeError"
proof -
  have groups: "parameter_groups root (variation (i3d_attributes w m)) = Inl AttributeError"
  proof -
    from missing consider "efind root ''Variations'' = None"
      | vs where "efind root ''Variations'' = Some vs"
          "CHR 0x27 \<notin> set (variation (i3d_attributes w m))"
          "List.find (\<lambda>c. tag c = ''Variation'' \<and>
              map_of (attrib c) ''name'' = Some (variation (i3d_attributes w m))) (children vs) = None"
      by (auto simp: find_None_iff)
    then show ?thesis
      using active
      by cases (simp_all add: parameter_groups_def shader_no_variation_def find_variation_def)
  qed
  have on: "load_custom_shader_variation_on pyfloat parse m w = Inl AttributeError"
    using tree gp gt groups by (simp add: load_custom_shader_variation_on_def Let_def)
  from resolving on show ?thesis
    by (auto simp: load_custom_shader_variation_execute_def)
qed


text \<open>The theorem at a descriptor without \<^verbatim>\<open>Variations\<close> and the variation \<^verbatim>\<open>secondUV\<close>.\<close>

theorem missing_variation_raises_witness:
  "variation (i3d_attributes
     \<lparr>materials = [''Mat''],
      i3d_attributes = (\<lambda>m. \<lparr>shader = ''vehicleShader'', custom_shader = [],
          variation = ''secondUV'', variations = [],
          shader_parameters = [] :: int I3DShaderParameter list,
          shader_textures = []\<rparr>),
      context_object = Some (Some ''Mat''), fs_data_path = ''/data'', printed = []\<rparr> ''Mat'')
     \<noteq> ''None'' \<and>
   efind (Element ''CustomShader'' [] None []) ''Variations'' = None \<and>
   load_custom_shader_variation_execute (\<lambda>s. None :: int option)
     (\<lambda>p. Some (Element ''CustomShader'' [] None [])) []
     \<lparr>materials = [''Mat''],
      i3d_attributes = (\<lambda>m. \<lparr>shader = ''vehicleShader'', custom_shader = [],
          variation = ''secondUV'', variations = [],
          shader_parameters = [] :: int I3DShaderParameter list,
          shader_textures = []\<rparr>),
      context_object = Some (Some ''Mat''), fs_data_path = ''/data'', printed = []\<rparr> =
     Inl AttributeError"
proof -
  let ?w = "\<lparr>materials = [''Mat''],
      i3d_attributes = (\<lambda>m. \<lparr>shader = ''vehicleShader'', custom_shader = [],
          variation = ''secondUV'', variations = [],
          shader_parameters = [] :: int I3DShaderParameter list,
          shader_textures = []\<rparr>),
      context_object = Some (Some ''Mat''), fs_data_path = ''/data'', printed = []\<rparr>"
  let ?root = "Element ''CustomShader'' [] None []"
  have h1: "[] = ''Mat'' \<and> ''Mat'' \<noteq> [] \<and> ''Mat'' \<in> set (materials ?w) \<or>
            [] = [] \<and> context_object ?w = Some (Some ''Mat'')" by simp
  have h2: "(\<lambda>p. Some ?root) (shader_file_path ?w (i3d_attributes ?w ''Mat'')) = Some ?root"
    by simp
  have h3: "variation (i3d_attributes ?w ''Mat'') \<noteq> ''None''" by simp
  have h4: "grouped_parameters ?root = Inr Map.empty"
    by (simp add: grouped_parameters_def efind_def)
  have h5: "grouped_textures ?root = Inr Map.empty"
    by (simp add: grouped_textures_def efind_def)
  have h6: "efind ?root ''Variations'' = None" by (simp add: efind_def)
  have h6': "efind ?root ''Variations'' = None \<or>
                  (\<exists>vs. efind ?root ''Variations'' = Some vs \<and>
                        CHR 0x27 \<notin> set (variation (i3d_attributes ?w ''Mat'')) \<and>
                        \<not> (\<exists>c \<in> set (children vs). tag c = ''Variation'' \<and>
                              map_of (attrib c) ''name'' = Some (variation (i3d_attributes ?w ''Mat''))))"
    using h6 by simp
  from missing_variation_raises[of "[]" "''Mat''" ?w "\<lambda>p. Some ?root" ?root, OF h1 h2 h3 h4 h5 h6']
  show ?thesis using h3 h6 by simp
qed

section \<open>Properties of the load operator\<close>






text \<open>
  \<^verbatim>\<open>clear_shader\<close> takes the material from the context, not from the material name
  the operator was given: with a material name and no active object, an invalid descriptor
  makes the operator raise.
\<close>

lemma clear_shader_ignores_material_name:
  "load_custom_shader_execute (\<lambda>p. None) ''Mat''
     \<lparr>materials = [''Mat''],
      i3d_attributes = (\<lambda>m. \<lparr>shader = ''vehicleShader'', custom_shader = [],
          variation = ''None'', variations = [],
          shader_parameters = [] :: int I3DShaderParameter list,
          shader_textures = []\<rparr>),
      context_object = None, fs_data_path = ''/data'', printed = []\<rparr> = Inl AttributeError"
  by (simp add: load_custom_shader_execute_def load_custom_shader_on_def clear_shader_def
      shader_file_path_def Let_def custom_shader_default_def)

section \<open>The groups added by the variation operator\<close>









end
